theory Spec2Isabelle
  imports Main "HOL-Library.Word"
begin

unbundle bit_operations_syntax

section \<open>The shared internal hook \<open>kprobe/security_inode_setattr\<close>\<close>

text \<open>
  The development embeds \<^verbatim>\<open>pkg/security/ebpf/c/setattr.h\<close>: the one probe
  \<^verbatim>\<open>kprobe__security_inode_setattr\<close>, which runs whenever the kernel calls
  \<^verbatim>\<open>security_inode_setattr(dentry, iattr)\<close> and copies what it sees into the
  in-flight syscall record of the calling task.
\<close>

subsection \<open>Data\<close>

type_synonym u32 = "32 word"
type_synonym u64 = "64 word"

text \<open>
  The event kinds are an enum of \<^verbatim>\<open>syscalls.h\<close>. The probe compares the kind with
  three of its members only; \<open>EVENT_OTHER n\<close> stands for every other member.
\<close>

datatype event_type = EVENT_UTIME | EVENT_CHMOD | EVENT_CHOWN | EVENT_OTHER nat

record timespec =
  tv_sec :: u64
  tv_nsec :: u64

record path_key_t =
  ino :: u64
  mount_id :: u32

text \<open>
  Modelled from the spec: the declaration of \<^verbatim>\<open>struct syscall_cache_t\<close> and of its
  \<^verbatim>\<open>setattr\<close> member lives in \<^verbatim>\<open>syscalls.h\<close>; the fields are those the probe
  touches and those of the spec's AttributeChangeRecord. \<open>dentry\<close> is a kernel pointer,
  \<open>0\<close> being \<^verbatim>\<open>NULL\<close>: the probe tests it (\<^verbatim>\<open>if (syscall->setattr.dentry)\<close>).
  The probe never reads \<open>group\<close>, \<open>atime\<close> and \<open>mtime\<close>; it only stores into them. They
  are optional as in the spec's record: \<open>None\<close> is a field nothing has been stored into,
  \<open>Some v\<close> a field holding the stored value \<open>v\<close>.
\<close>

record setattr_t =
  dentry :: u64
  path_key :: path_key_t
  group :: "u32 option"
  atime :: "timespec option"
  mtime :: "timespec option"

record syscall_cache_t =
  type :: event_type
  setattr :: setattr_t

text \<open>
  The kernel's \<^verbatim>\<open>struct iattr\<close>, restricted to the four fields the probe reads with
  \<^verbatim>\<open>bpf_probe_read\<close>. The record holds what the helper delivers for each field.
\<close>

record iattr =
  ia_valid :: u32
  ia_gid :: u32
  ia_atime :: timespec
  ia_mtime :: timespec

text \<open>
  The registers of the probed call: the first parameter is the \<^verbatim>\<open>struct dentry *\<close>,
  the second the \<^verbatim>\<open>struct iattr *\<close>, \<open>None\<close> when that pointer is \<^verbatim>\<open>NULL\<close>.
\<close>

record pt_regs =
  PT_REGS_PARM1 :: u64
  PT_REGS_PARM2 :: "iattr option"

text \<open>
  What the probe takes from outside this file: the kernel's \<^verbatim>\<open>ATTR_*\<close> bit masks of
  \<^verbatim>\<open>ia_valid\<close>, and the helper \<^verbatim>\<open>get_dentry_ino\<close>, which reads the inode number
  of a dentry from kernel memory. The theorems hold for every choice of them.
\<close>

record kernel =
  ATTR_GID :: u32
  ATTR_TOUCH :: u32
  ATTR_ATIME_SET :: u32
  ATTR_MTIME_SET :: u32
  get_dentry_ino :: "u64 \<Rightarrow> u64"

text \<open>
  The shared state: the map of in-flight syscall records, keyed by the id of the task
  that entered the syscall, and the requests made to the path resolver, oldest first.
  \<^verbatim>\<open>resolve_dentry(dentry, key, NULL)\<close> takes the path key by value; what it does with
  the path cache is outside this file, so a call is recorded with its two arguments.
\<close>

record probe_state =
  syscalls :: "u64 \<rightharpoonup> syscall_cache_t"
  resolve_dentry_calls :: "(u64 \<times> path_key_t) list"

subsection \<open>The probe\<close>

text \<open>
  Modelled from the spec: \<^verbatim>\<open>peek_syscall\<close> is defined in \<^verbatim>\<open>syscalls.h\<close>; by the
  spec's contract \<open>peek(execution_unit_id)\<close> it looks the calling task's record up and
  never allocates; absence is a normal outcome.
\<close>

definition peek_syscall :: "probe_state \<Rightarrow> u64 \<Rightarrow> syscall_cache_t option" where
  "peek_syscall s tid = syscalls s tid"

text \<open>
  \<^verbatim>\<open>syscall\<close> points into the map, so every store through it changes the map's entry.
\<close>

definition store_syscall :: "probe_state \<Rightarrow> u64 \<Rightarrow> syscall_cache_t \<Rightarrow> probe_state" where
  "store_syscall s tid c = s\<lparr>syscalls := (syscalls s)(tid \<mapsto> c)\<rparr>"

text \<open>
  The probe, run by task \<open>tid\<close> on registers \<open>ctx\<close> in state \<open>s\<close>; the result is the
  return value and the state it leaves. The block on \<^verbatim>\<open>iattr\<close> (lines 12 to 26) yields
  \<open>Inl\<close> when it returns at line 22 and \<open>Inr\<close> when control goes on to line 28; both
  carry the record with the stores made so far.
\<close>

definition kprobe__security_inode_setattr ::
  "kernel \<Rightarrow> u64 \<Rightarrow> pt_regs \<Rightarrow> probe_state \<Rightarrow> int \<times> probe_state" where
  "kprobe__security_inode_setattr K tid ctx s =
    (case peek_syscall s tid of
      None \<Rightarrow> (0, s)
    | Some syscall \<Rightarrow>
       (case
          (case PT_REGS_PARM2 ctx of
            None \<Rightarrow> Inr syscall
          | Some ia \<Rightarrow>
             (let valid = ia_valid ia;
                  syscall1 =
                    (if valid AND ATTR_GID K \<noteq> 0
                     then syscall\<lparr>setattr := (setattr syscall)\<lparr>group := Some (ia_gid ia)\<rparr>\<rparr>
                     else syscall)
              in if valid AND (ATTR_TOUCH K OR ATTR_ATIME_SET K OR ATTR_MTIME_SET K) \<noteq> 0
                 then if dentry (setattr syscall1) \<noteq> 0
                      then Inl syscall1
                      else Inr (syscall1\<lparr>setattr := (setattr syscall1)
                                  \<lparr>atime := Some (ia_atime ia), mtime := Some (ia_mtime ia)\<rparr>\<rparr>)
                 else Inr syscall1))
        of
          Inl syscall2 \<Rightarrow> (0, store_syscall s tid syscall2)
        | Inr syscall2 \<Rightarrow>
           (if type syscall2 = EVENT_UTIME \<or> type syscall2 = EVENT_CHMOD
                \<or> type syscall2 = EVENT_CHOWN
            then if dentry (setattr syscall2) \<noteq> 0
                 then (0, store_syscall s tid syscall2)
                 else
                  (let d = PT_REGS_PARM1 ctx;
                       syscall3 = syscall2\<lparr>setattr := (setattr syscall2)\<lparr>dentry := d\<rparr>\<rparr>;
                       syscall4 = syscall3\<lparr>setattr := (setattr syscall3)
                         \<lparr>path_key := (path_key (setattr syscall3))
                            \<lparr>ino := get_dentry_ino K (dentry (setattr syscall3))\<rparr>\<rparr>\<rparr>
                   in (0, (store_syscall s tid syscall4)
                        \<lparr>resolve_dentry_calls := resolve_dentry_calls s @
                           [(dentry (setattr syscall4), path_key (setattr syscall4))]\<rparr>))
            else (0, store_syscall s tid syscall2))))"

text \<open>A sequence of firings for the same task, oldest first.\<close>

fun fire_all :: "kernel \<Rightarrow> u64 \<Rightarrow> pt_regs list \<Rightarrow> probe_state \<Rightarrow> probe_state" where
  "fire_all K tid [] s = s"
| "fire_all K tid (ctx # ctxs) s =
     fire_all K tid ctxs (snd (kprobe__security_inode_setattr K tid ctx s))"

subsection \<open>Vocabulary of the properties\<close>

text \<open>
  A firing carries the group-id bit, or a time-touch bit, when its \<^verbatim>\<open>iattr\<close> pointer is
  not \<^verbatim>\<open>NULL\<close> and the test of line 16, or of line 20, succeeds on \<^verbatim>\<open>ia_valid\<close>.
\<close>

definition carries_gid :: "kernel \<Rightarrow> pt_regs \<Rightarrow> bool" where
  "carries_gid K ctx =
     (case PT_REGS_PARM2 ctx of
        None \<Rightarrow> False
      | Some ia \<Rightarrow> ia_valid ia AND ATTR_GID K \<noteq> 0)"

definition carries_times :: "kernel \<Rightarrow> pt_regs \<Rightarrow> bool" where
  "carries_times K ctx =
     (case PT_REGS_PARM2 ctx of
        None \<Rightarrow> False
      | Some ia \<Rightarrow> ia_valid ia AND (ATTR_TOUCH K OR ATTR_ATIME_SET K OR ATTR_MTIME_SET K) \<noteq> 0)"

text \<open>The fields of a task's record as a reader of the state sees them.\<close>

definition group_of :: "probe_state \<Rightarrow> u64 \<Rightarrow> u32 option" where
  "group_of s tid = (case syscalls s tid of None \<Rightarrow> None | Some c \<Rightarrow> group (setattr c))"

definition atime_of :: "probe_state \<Rightarrow> u64 \<Rightarrow> timespec option" where
  "atime_of s tid = (case syscalls s tid of None \<Rightarrow> None | Some c \<Rightarrow> atime (setattr c))"

definition mtime_of :: "probe_state \<Rightarrow> u64 \<Rightarrow> timespec option" where
  "mtime_of s tid = (case syscalls s tid of None \<Rightarrow> None | Some c \<Rightarrow> mtime (setattr c))"

subsection \<open>Concrete inputs\<close>

text \<open>
  The masks as Linux defines them in \<^verbatim>\<open>include/linux/fs.h\<close>, and a stand-in for the
  inode reader. A record as the entry hook leaves it, with the mount id already known;
  a state holding one record, for task 7; a record whose target has been captured and
  whose group is 5; the
  registers of a \<^verbatim>\<open>chown\<close> to group \<open>g\<close> (\<^verbatim>\<open>ATTR_UID | ATTR_GID | ATTR_CTIME\<close>),
  of a \<^verbatim>\<open>utimes\<close> to the seconds \<open>a\<close> and \<open>m\<close>
  (\<^verbatim>\<open>ATTR_ATIME | ATTR_MTIME | ATTR_CTIME | ATTR_ATIME_SET | ATTR_MTIME_SET\<close>) and of a
  call with a \<^verbatim>\<open>NULL\<close> \<^verbatim>\<open>iattr\<close>, each on the dentry at address \<open>d\<close>.
\<close>

definition linux :: kernel where
  "linux = \<lparr>ATTR_GID = 0x4, ATTR_TOUCH = 0x20000, ATTR_ATIME_SET = 0x80,
             ATTR_MTIME_SET = 0x100, get_dentry_ino = (\<lambda>d. d + 0x28)\<rparr>"

definition fresh :: "event_type \<Rightarrow> syscall_cache_t" where
  "fresh k = \<lparr>type = k, setattr = \<lparr>dentry = 0, path_key = \<lparr>ino = 0, mount_id = 27\<rparr>,
                group = None, atime = None, mtime = None\<rparr>\<rparr>"

definition task7 :: "syscall_cache_t \<Rightarrow> probe_state" where
  "task7 c = \<lparr>syscalls = [7 \<mapsto> c], resolve_dentry_calls = []\<rparr>"

definition populated :: "event_type \<Rightarrow> syscall_cache_t" where
  "populated k = \<lparr>type = k, setattr = \<lparr>dentry = 0x1000,
                    path_key = \<lparr>ino = 0x1028, mount_id = 27\<rparr>,
                    group = Some 5, atime = None, mtime = None\<rparr>\<rparr>"

definition chown_iattr :: "u32 \<Rightarrow> iattr" where
  "chown_iattr g = \<lparr>ia_valid = 0x46, ia_gid = g, ia_atime = \<lparr>tv_sec = 0, tv_nsec = 0\<rparr>,
                    ia_mtime = \<lparr>tv_sec = 0, tv_nsec = 0\<rparr>\<rparr>"

definition utimes_iattr :: "u64 \<Rightarrow> u64 \<Rightarrow> iattr" where
  "utimes_iattr a m = \<lparr>ia_valid = 0x1F0, ia_gid = 0, ia_atime = \<lparr>tv_sec = a, tv_nsec = 0\<rparr>,
                       ia_mtime = \<lparr>tv_sec = m, tv_nsec = 0\<rparr>\<rparr>"

definition chown_regs :: "u64 \<Rightarrow> u32 \<Rightarrow> pt_regs" where
  "chown_regs d g = \<lparr>PT_REGS_PARM1 = d, PT_REGS_PARM2 = Some (chown_iattr g)\<rparr>"

definition utimes_regs :: "u64 \<Rightarrow> u64 \<Rightarrow> u64 \<Rightarrow> pt_regs" where
  "utimes_regs d a m = \<lparr>PT_REGS_PARM1 = d, PT_REGS_PARM2 = Some (utimes_iattr a m)\<rparr>"

definition null_iattr_regs :: "u64 \<Rightarrow> pt_regs" where
  "null_iattr_regs d = \<lparr>PT_REGS_PARM1 = d, PT_REGS_PARM2 = None\<rparr>"

section \<open>One firing\<close>

lemmas fire_defs =
  kprobe__security_inode_setattr_def peek_syscall_def store_syscall_def Let_def

lemma fire_returns_0: "fst (kprobe__security_inode_setattr K tid ctx s) = 0"
  by (simp add: fire_defs split: option.splits sum.splits)

lemma fire_no_record:
  "peek_syscall s tid = None \<Longrightarrow> snd (kprobe__security_inode_setattr K tid ctx s) = s"
  by (simp add: fire_defs)

lemma fire_other_task:
  "t \<noteq> tid \<Longrightarrow> syscalls (snd (kprobe__security_inode_setattr K tid ctx s)) t = syscalls s t"
  by (simp add: fire_defs split: option.splits sum.splits)

lemma fire_keeps_type:
  assumes "peek_syscall s tid = Some c"
  shows "\<exists>c'. peek_syscall (snd (kprobe__security_inode_setattr K tid ctx s)) tid = Some c'
           \<and> type c' = type c"
  using assms by (auto simp add: fire_defs split: option.splits)

text \<open>Once the dentry is set, a firing can only store the group id.\<close>

lemma fire_populated:
  assumes "peek_syscall s tid = Some c" and "dentry (setattr c) \<noteq> 0"
  shows "\<exists>c'. peek_syscall (snd (kprobe__security_inode_setattr K tid ctx s)) tid = Some c'
           \<and> dentry (setattr c') = dentry (setattr c)
           \<and> path_key (setattr c') = path_key (setattr c)
           \<and> atime (setattr c') = atime (setattr c)
           \<and> mtime (setattr c') = mtime (setattr c)"
  using assms by (auto simp add: fire_defs split: option.splits)

lemma fire_group:
  assumes "peek_syscall s tid = Some c"
  shows "\<exists>c'. peek_syscall (snd (kprobe__security_inode_setattr K tid ctx s)) tid = Some c'
           \<and> group (setattr c') =
               (case PT_REGS_PARM2 ctx of
                  None \<Rightarrow> group (setattr c)
                | Some ia \<Rightarrow> if ia_valid ia AND ATTR_GID K \<noteq> 0 then Some (ia_gid ia)
                            else group (setattr c))"
  using assms by (auto simp add: fire_defs split: option.splits)

lemma fire_times:
  assumes "peek_syscall s tid = Some c"
  shows "\<exists>c'. peek_syscall (snd (kprobe__security_inode_setattr K tid ctx s)) tid = Some c'
           \<and> (atime (setattr c'), mtime (setattr c')) =
               (case PT_REGS_PARM2 ctx of
                  None \<Rightarrow> (atime (setattr c), mtime (setattr c))
                | Some ia \<Rightarrow>
                    if ia_valid ia AND (ATTR_TOUCH K OR ATTR_ATIME_SET K OR ATTR_MTIME_SET K) \<noteq> 0
                       \<and> dentry (setattr c) = 0
                    then (Some (ia_atime ia), Some (ia_mtime ia))
                    else (atime (setattr c), mtime (setattr c)))"
  using assms by (auto simp add: fire_defs split: option.splits)

lemma fire_target:
  assumes "peek_syscall s tid = Some c"
  shows "\<exists>c'. peek_syscall (snd (kprobe__security_inode_setattr K tid ctx s)) tid = Some c'
           \<and> (if type c \<in> {EVENT_UTIME, EVENT_CHMOD, EVENT_CHOWN} \<and> dentry (setattr c) = 0
               then dentry (setattr c') = PT_REGS_PARM1 ctx
                  \<and> path_key (setattr c') =
                      (path_key (setattr c))\<lparr>ino := get_dentry_ino K (PT_REGS_PARM1 ctx)\<rparr>
                  \<and> resolve_dentry_calls (snd (kprobe__security_inode_setattr K tid ctx s)) =
                      resolve_dentry_calls s @ [(PT_REGS_PARM1 ctx, path_key (setattr c'))]
               else dentry (setattr c') = dentry (setattr c)
                  \<and> path_key (setattr c') = path_key (setattr c)
                  \<and> resolve_dentry_calls (snd (kprobe__security_inode_setattr K tid ctx s)) =
                      resolve_dentry_calls s)"
  using assms
  by (cases "type c \<in> {EVENT_UTIME, EVENT_CHMOD, EVENT_CHOWN}"; cases "dentry (setattr c) = 0")
    (auto simp add: fire_defs split: option.splits)

section \<open>Sequences of firings\<close>

lemma fire_all_append:
  "fire_all K tid (xs @ ys) s = fire_all K tid ys (fire_all K tid xs s)"
  by (induction xs arbitrary: s) simp_all

lemma fire_all_keeps_type:
  "peek_syscall s tid = Some c \<Longrightarrow>
   \<exists>c'. peek_syscall (fire_all K tid ctxs s) tid = Some c' \<and> type c' = type c"
proof (induction ctxs arbitrary: s c)
  case Nil
  then show ?case by simp
next
  case (Cons ctx ctxs)
  from fire_keeps_type [OF Cons.prems, of K ctx] obtain c1 where
    c1: "peek_syscall (snd (kprobe__security_inode_setattr K tid ctx s)) tid = Some c1"
    and t1: "type c1 = type c" by blast
  from Cons.IH [OF c1] t1 show ?case by simp
qed

lemma fire_all_populated:
  "peek_syscall s tid = Some c \<Longrightarrow> dentry (setattr c) \<noteq> 0 \<Longrightarrow>
   \<exists>c'. peek_syscall (fire_all K tid ctxs s) tid = Some c'
        \<and> dentry (setattr c') = dentry (setattr c)
        \<and> path_key (setattr c') = path_key (setattr c)
        \<and> atime (setattr c') = atime (setattr c)
        \<and> mtime (setattr c') = mtime (setattr c)"
proof (induction ctxs arbitrary: s c)
  case Nil
  then show ?case by simp
next
  case (Cons ctx ctxs)
  from fire_populated [OF Cons.prems, of K ctx] obtain c1 where
    c1: "peek_syscall (snd (kprobe__security_inode_setattr K tid ctx s)) tid = Some c1"
    and same: "dentry (setattr c1) = dentry (setattr c)"
      "path_key (setattr c1) = path_key (setattr c)"
      "atime (setattr c1) = atime (setattr c)"
      "mtime (setattr c1) = mtime (setattr c)"
    by blast
  from same Cons.prems have "dentry (setattr c1) \<noteq> 0" by simp
  from Cons.IH [OF c1 this] same show ?case by simp
qed

lemma fire_all_times:
  "peek_syscall s tid = Some c \<Longrightarrow>
   \<exists>c'. peek_syscall (fire_all K tid ctxs s) tid = Some c'
        \<and> (atime (setattr c') = atime (setattr c) \<and> mtime (setattr c') = mtime (setattr c)
           \<or> (\<exists>ctx \<in> set ctxs. \<exists>ia. PT_REGS_PARM2 ctx = Some ia
                 \<and> atime (setattr c') = Some (ia_atime ia)
                 \<and> mtime (setattr c') = Some (ia_mtime ia)))"
proof (induction ctxs arbitrary: s c)
  case Nil
  then show ?case by simp
next
  case (Cons ctx ctxs)
  from fire_times [OF Cons.prems, of K ctx] obtain c1 where
    c1: "peek_syscall (snd (kprobe__security_inode_setattr K tid ctx s)) tid = Some c1"
    and step: "atime (setattr c1) = atime (setattr c) \<and> mtime (setattr c1) = mtime (setattr c)
       \<or> (\<exists>ia. PT_REGS_PARM2 ctx = Some ia \<and> atime (setattr c1) = Some (ia_atime ia)
             \<and> mtime (setattr c1) = Some (ia_mtime ia))"
    by (auto split: option.splits if_splits)
  from Cons.IH [OF c1] obtain c' where
    c': "peek_syscall (fire_all K tid ctxs (snd (kprobe__security_inode_setattr K tid ctx s))) tid
           = Some c'"
    and rest: "atime (setattr c') = atime (setattr c1) \<and> mtime (setattr c') = mtime (setattr c1)
       \<or> (\<exists>ctx \<in> set ctxs. \<exists>ia. PT_REGS_PARM2 ctx = Some ia
             \<and> atime (setattr c') = Some (ia_atime ia)
             \<and> mtime (setattr c') = Some (ia_mtime ia))"
    by blast
  from step rest have
    "atime (setattr c') = atime (setattr c) \<and> mtime (setattr c') = mtime (setattr c)
       \<or> (\<exists>r \<in> set (ctx # ctxs). \<exists>ia. PT_REGS_PARM2 r = Some ia
             \<and> atime (setattr c') = Some (ia_atime ia)
             \<and> mtime (setattr c') = Some (ia_mtime ia))"
    by auto
  with c' show ?case by simp
qed

text \<open>
  A record of another kind whose dentry is still \<^verbatim>\<open>NULL\<close> keeps it \<^verbatim>\<open>NULL\<close>: line
  28 is the only way to line 31.
\<close>

lemma fire_other_kind:
  assumes "peek_syscall s tid = Some c"
    and "type c \<notin> {EVENT_UTIME, EVENT_CHMOD, EVENT_CHOWN}" and "dentry (setattr c) = 0"
  shows "\<exists>c'. peek_syscall (snd (kprobe__security_inode_setattr K tid ctx s)) tid = Some c'
           \<and> type c' = type c \<and> dentry (setattr c') = 0"
  using assms by (auto simp add: fire_defs split: option.splits)

lemma fire_all_other_kind:
  "peek_syscall s tid = Some c \<Longrightarrow> type c \<notin> {EVENT_UTIME, EVENT_CHMOD, EVENT_CHOWN} \<Longrightarrow>
   dentry (setattr c) = 0 \<Longrightarrow>
   \<exists>c'. peek_syscall (fire_all K tid ctxs s) tid = Some c'
        \<and> type c' = type c \<and> dentry (setattr c') = 0"
proof (induction ctxs arbitrary: s c)
  case Nil
  then show ?case by simp
next
  case (Cons ctx ctxs)
  from fire_other_kind [OF Cons.prems, of K ctx] obtain c1 where
    c1: "peek_syscall (snd (kprobe__security_inode_setattr K tid ctx s)) tid = Some c1"
    and t1: "type c1 = type c" and d1: "dentry (setattr c1) = 0"
    by blast
  from Cons.prems t1 have "type c1 \<notin> {EVENT_UTIME, EVENT_CHMOD, EVENT_CHOWN}" by simp
  from Cons.IH [OF c1 this d1] t1 show ?case by simp
qed

section \<open>Properties of the probe\<close>

lemmas example_defs =
  linux_def fresh_def populated_def task7_def chown_iattr_def utimes_iattr_def chown_regs_def
  utimes_regs_def null_iattr_regs_def carries_gid_def carries_times_def
  group_of_def atime_of_def mtime_of_def

subsection \<open>The group id\<close>

text \<open>
  C1, as the spec words it: after two or more firings on one record, each carrying the
  group-id bit, \<open>group\<close> is the group id of the first firing that set it. The probe
  does otherwise: task 7 is in a \<^verbatim>\<open>chown\<close>, the first firing stores group 1000, the
  second carries group 2000, and the record ends with 2000.
\<close>

theorem group_first_writer_counterexample:
  "carries_gid linux (chown_regs 0x1000 1000) \<and> carries_gid linux (chown_regs 0x1000 2000)
   \<and> group_of (task7 (fresh EVENT_CHOWN)) 7 = None
   \<and> group_of (snd (kprobe__security_inode_setattr linux 7 (chown_regs 0x1000 1000)
         (task7 (fresh EVENT_CHOWN)))) 7 = Some 1000
   \<and> group_of (fire_all linux 7 [chown_regs 0x1000 1000, chown_regs 0x1000 2000]
         (task7 (fresh EVENT_CHOWN))) 7 = Some 2000
   \<and> group_of (fire_all linux 7 [chown_regs 0x1000 1000, chown_regs 0x1000 2000]
         (task7 (fresh EVENT_CHOWN))) 7 \<noteq> Some 1000"
  by (simp add: fire_defs example_defs)

text \<open>
  C1, amended: after one or more firings on one record, each carrying the group-id bit,
  \<open>group\<close> is the group id of the last firing, whatever the earlier ones carried.
\<close>

theorem group_last_writer:
  assumes "peek_syscall s tid = Some c"
    and "\<forall>r \<in> set (ctxs @ [ctx]). carries_gid K r"
    and "PT_REGS_PARM2 ctx = Some ia"
  shows "\<exists>c'. peek_syscall (fire_all K tid (ctxs @ [ctx]) s) tid = Some c'
           \<and> group (setattr c') = Some (ia_gid ia)"
proof -
  from fire_all_keeps_type [OF assms(1), of K ctxs] obtain c1 where
    c1: "peek_syscall (fire_all K tid ctxs s) tid = Some c1" by blast
  from assms(2,3) have bit: "ia_valid ia AND ATTR_GID K \<noteq> 0"
    by (simp add: carries_gid_def)
  from fire_group [OF c1, of K ctx] assms(3) bit show ?thesis
    by (simp add: fire_all_append)
qed

theorem group_last_writer_witness:
  "peek_syscall (task7 (fresh EVENT_CHOWN)) 7 = Some (fresh EVENT_CHOWN)
   \<and> carries_gid linux (chown_regs 0x1000 1000) \<and> carries_gid linux (chown_regs 0x1000 2000)
   \<and> PT_REGS_PARM2 (chown_regs 0x1000 2000) = Some (chown_iattr 2000)
   \<and> (\<exists>c'. peek_syscall (fire_all linux 7 ([chown_regs 0x1000 1000] @ [chown_regs 0x1000 2000])
               (task7 (fresh EVENT_CHOWN))) 7 = Some c'
          \<and> group (setattr c') = Some (ia_gid (chown_iattr 2000)))"
  using group_last_writer [where s = "task7 (fresh EVENT_CHOWN)" and tid = 7
      and c = "fresh EVENT_CHOWN" and ctxs = "[chown_regs 0x1000 1000]"
      and ctx = "chown_regs 0x1000 2000" and K = linux and ia = "chown_iattr 2000"]
  by (simp add: peek_syscall_def example_defs)

text \<open>
  C2: a firing for a task with a record, whose \<^verbatim>\<open>iattr\<close> is not \<^verbatim>\<open>NULL\<close> and whose
  \<^verbatim>\<open>ia_valid\<close> has the \<^verbatim>\<open>ATTR_GID\<close> bit, leaves the argument's group id in \<open>group\<close>,
  whatever the field held before and whatever else the firing does.
\<close>

theorem gid_copied_unconditionally:
  assumes "peek_syscall s tid = Some c"
    and "PT_REGS_PARM2 ctx = Some ia"
    and "ia_valid ia AND ATTR_GID K \<noteq> 0"
  shows "\<exists>c'. peek_syscall (snd (kprobe__security_inode_setattr K tid ctx s)) tid = Some c'
           \<and> group (setattr c') = Some (ia_gid ia)"
  using fire_group [OF assms(1), of K ctx] assms(2,3) by simp

theorem gid_copied_unconditionally_witness:
  "peek_syscall (task7 (populated EVENT_CHOWN)) 7 = Some (populated EVENT_CHOWN)
   \<and> group (setattr (populated EVENT_CHOWN)) = Some 5
   \<and> PT_REGS_PARM2 (chown_regs 0x1000 1000) = Some (chown_iattr 1000)
   \<and> ia_valid (chown_iattr 1000) AND ATTR_GID linux \<noteq> 0
   \<and> (\<exists>c'. peek_syscall (snd (kprobe__security_inode_setattr linux 7 (chown_regs 0x1000 1000)
               (task7 (populated EVENT_CHOWN)))) 7 = Some c'
          \<and> group (setattr c') = Some 1000)"
  using gid_copied_unconditionally [where s = "task7 (populated EVENT_CHOWN)" and tid = 7
      and c = "populated EVENT_CHOWN" and ctx = "chown_regs 0x1000 1000" and K = linux
      and ia = "chown_iattr 1000"]
  by (simp add: peek_syscall_def example_defs)

subsection \<open>No record, and what a firing never touches\<close>

text \<open>
  C6: when the calling task has no in-flight record, the probe returns 0 at once and
  leaves the whole state as it was: no record is created, no record is changed, and the
  path resolver is not called.
\<close>

theorem no_context_is_noop:
  "peek_syscall s tid = None \<Longrightarrow> kprobe__security_inode_setattr K tid ctx s = (0, s)"
  by (simp add: kprobe__security_inode_setattr_def)

theorem no_context_is_noop_witness:
  "peek_syscall (task7 (fresh EVENT_CHOWN)) 8 = None
   \<and> kprobe__security_inode_setattr linux 8 (chown_regs 0x1000 1000) (task7 (fresh EVENT_CHOWN))
       = (0, task7 (fresh EVENT_CHOWN))"
  using no_context_is_noop [where s = "task7 (fresh EVENT_CHOWN)" and tid = 8 and K = linux
      and ctx = "chown_regs 0x1000 1000"]
  by (simp add: peek_syscall_def task7_def)

text \<open>
  C10: a firing creates no record and destroys none, and leaves the kind of every record
  as it was: the tasks with a record are the same before and after, and each record has
  the kind it had.
\<close>

theorem live_contexts_and_kinds_unchanged:
  "dom (syscalls (snd (kprobe__security_inode_setattr K tid ctx s))) = dom (syscalls s)
   \<and> (\<forall>t c. syscalls s t = Some c \<longrightarrow>
         (\<exists>c'. syscalls (snd (kprobe__security_inode_setattr K tid ctx s)) t = Some c'
              \<and> type c' = type c))"
proof -
  let ?s' = "snd (kprobe__security_inode_setattr K tid ctx s)"
  have kinds: "\<exists>c'. syscalls ?s' t = Some c' \<and> type c' = type c"
    if "syscalls s t = Some c" for t c
  proof (cases "t = tid")
    case True
    with that fire_keeps_type [of s tid c K ctx] show ?thesis
      by (simp add: peek_syscall_def)
  next
    case False
    with that show ?thesis by (simp add: fire_other_task)
  qed
  have "syscalls s t = None \<Longrightarrow> syscalls ?s' t = None" for t
    by (cases "t = tid") (simp_all add: fire_other_task fire_no_record peek_syscall_def)
  with kinds have "dom (syscalls ?s') = dom (syscalls s)"
    by (fastforce simp add: dom_def)
  with kinds show ?thesis by blast
qed

theorem live_contexts_and_kinds_unchanged_witness:
  "syscalls (task7 (fresh EVENT_CHOWN)) 7 = Some (fresh EVENT_CHOWN)
   \<and> dom (syscalls (snd (kprobe__security_inode_setattr linux 7 (chown_regs 0x1000 1000)
            (task7 (fresh EVENT_CHOWN))))) = {7}
   \<and> (\<exists>c'. syscalls (snd (kprobe__security_inode_setattr linux 7 (chown_regs 0x1000 1000)
                (task7 (fresh EVENT_CHOWN)))) 7 = Some c'
          \<and> type c' = EVENT_CHOWN)"
proof -
  let ?s' = "snd (kprobe__security_inode_setattr linux 7 (chown_regs 0x1000 1000)
               (task7 (fresh EVENT_CHOWN)))"
  have rec: "syscalls (task7 (fresh EVENT_CHOWN)) 7 = Some (fresh EVENT_CHOWN)"
    by (simp add: task7_def)
  have kind: "type (fresh EVENT_CHOWN) = EVENT_CHOWN"
    by (simp add: fresh_def)
  note live = live_contexts_and_kinds_unchanged [where s = "task7 (fresh EVENT_CHOWN)"
      and tid = 7 and K = linux and ctx = "chown_regs 0x1000 1000"]
  from live have "dom (syscalls ?s') = {7}"
    by (simp add: task7_def)
  moreover from live rec kind have "\<exists>c'. syscalls ?s' 7 = Some c' \<and> type c' = EVENT_CHOWN"
    by metis
  ultimately show ?thesis using rec by simp
qed

subsection \<open>The target: dentry and path key\<close>

text \<open>
  C4: once the record's dentry is not \<^verbatim>\<open>NULL\<close>, no firing on that record, and no
  sequence of firings, changes the dentry or the path key: the first capture stays.
\<close>

theorem target_populated_once:
  assumes "peek_syscall s tid = Some c" and "dentry (setattr c) \<noteq> 0"
  shows "\<exists>c'. peek_syscall (fire_all K tid ctxs s) tid = Some c'
           \<and> dentry (setattr c') = dentry (setattr c)
           \<and> path_key (setattr c') = path_key (setattr c)"
  using fire_all_populated [OF assms, of K ctxs] by blast

theorem target_populated_once_witness:
  "peek_syscall (task7 (populated EVENT_UTIME)) 7 = Some (populated EVENT_UTIME)
   \<and> dentry (setattr (populated EVENT_UTIME)) \<noteq> 0
   \<and> (\<exists>c'. peek_syscall (fire_all linux 7 [chown_regs 0x2000 1000, utimes_regs 0x3000 100 200]
               (task7 (populated EVENT_UTIME))) 7 = Some c'
          \<and> dentry (setattr c') = 0x1000
          \<and> path_key (setattr c') = \<lparr>ino = 0x1028, mount_id = 27\<rparr>)"
  using target_populated_once [where s = "task7 (populated EVENT_UTIME)" and tid = 7
      and c = "populated EVENT_UTIME" and K = linux
      and ctxs = "[chown_regs 0x2000 1000, utimes_regs 0x3000 100 200]"]
  by (simp add: peek_syscall_def task7_def populated_def)

text \<open>
  C5: in a firing for a task with a record, the probe stores its first argument as the
  record's dentry, stores that dentry's inode number in the path key and calls the path
  resolver on the two, all in this firing, exactly when the record's kind is
  \<^verbatim>\<open>EVENT_UTIME\<close>, \<^verbatim>\<open>EVENT_CHMOD\<close> or \<^verbatim>\<open>EVENT_CHOWN\<close> and its dentry is still
  \<^verbatim>\<open>NULL\<close>. Otherwise dentry and path key stay and the resolver is not called.
\<close>

theorem target_captured_iff:
  assumes "peek_syscall s tid = Some c"
  shows "\<exists>c'. peek_syscall (snd (kprobe__security_inode_setattr K tid ctx s)) tid = Some c'
           \<and> ((dentry (setattr c') = PT_REGS_PARM1 ctx
                \<and> path_key (setattr c') =
                    (path_key (setattr c))\<lparr>ino := get_dentry_ino K (PT_REGS_PARM1 ctx)\<rparr>
                \<and> resolve_dentry_calls (snd (kprobe__security_inode_setattr K tid ctx s)) =
                    resolve_dentry_calls s @ [(PT_REGS_PARM1 ctx, path_key (setattr c'))])
               \<longleftrightarrow> (type c \<in> {EVENT_UTIME, EVENT_CHMOD, EVENT_CHOWN}
                      \<and> dentry (setattr c) = 0))
           \<and> (\<not> (type c \<in> {EVENT_UTIME, EVENT_CHMOD, EVENT_CHOWN} \<and> dentry (setattr c) = 0)
                \<longrightarrow> dentry (setattr c') = dentry (setattr c)
                  \<and> path_key (setattr c') = path_key (setattr c)
                  \<and> resolve_dentry_calls (snd (kprobe__security_inode_setattr K tid ctx s)) =
                      resolve_dentry_calls s)"
proof -
  from fire_target [OF assms, of K ctx] obtain c' where
    c': "peek_syscall (snd (kprobe__security_inode_setattr K tid ctx s)) tid = Some c'"
    and tgt: "if type c \<in> {EVENT_UTIME, EVENT_CHMOD, EVENT_CHOWN} \<and> dentry (setattr c) = 0
       then dentry (setattr c') = PT_REGS_PARM1 ctx
          \<and> path_key (setattr c') =
              (path_key (setattr c))\<lparr>ino := get_dentry_ino K (PT_REGS_PARM1 ctx)\<rparr>
          \<and> resolve_dentry_calls (snd (kprobe__security_inode_setattr K tid ctx s)) =
              resolve_dentry_calls s @ [(PT_REGS_PARM1 ctx, path_key (setattr c'))]
       else dentry (setattr c') = dentry (setattr c)
          \<and> path_key (setattr c') = path_key (setattr c)
          \<and> resolve_dentry_calls (snd (kprobe__security_inode_setattr K tid ctx s)) =
              resolve_dentry_calls s"
    by blast
  show ?thesis
  proof (cases "type c \<in> {EVENT_UTIME, EVENT_CHMOD, EVENT_CHOWN} \<and> dentry (setattr c) = 0")
    case True
    with c' tgt show ?thesis by simp
  next
    case False
    with tgt have
      "resolve_dentry_calls (snd (kprobe__security_inode_setattr K tid ctx s)) =
        resolve_dentry_calls s"
      and "dentry (setattr c') = dentry (setattr c)"
      and "path_key (setattr c') = path_key (setattr c)"
      by simp_all
    with c' False show ?thesis by simp
  qed
qed

theorem target_captured_iff_witness:
  "peek_syscall (task7 (fresh EVENT_CHMOD)) 7 = Some (fresh EVENT_CHMOD)
   \<and> type (fresh EVENT_CHMOD) \<in> {EVENT_UTIME, EVENT_CHMOD, EVENT_CHOWN}
   \<and> dentry (setattr (fresh EVENT_CHMOD)) = 0
   \<and> (\<exists>c'. peek_syscall (snd (kprobe__security_inode_setattr linux 7 (null_iattr_regs 0x1000)
               (task7 (fresh EVENT_CHMOD)))) 7 = Some c'
          \<and> dentry (setattr c') = 0x1000
          \<and> path_key (setattr c') = \<lparr>ino = 0x1028, mount_id = 27\<rparr>
          \<and> resolve_dentry_calls (snd (kprobe__security_inode_setattr linux 7
                (null_iattr_regs 0x1000) (task7 (fresh EVENT_CHMOD)))) =
              [(0x1000, \<lparr>ino = 0x1028, mount_id = 27\<rparr>)])
   \<and> peek_syscall (task7 (populated EVENT_CHMOD)) 7 = Some (populated EVENT_CHMOD)
   \<and> dentry (setattr (populated EVENT_CHMOD)) \<noteq> 0
   \<and> (\<exists>c'. peek_syscall (snd (kprobe__security_inode_setattr linux 7 (null_iattr_regs 0x2000)
               (task7 (populated EVENT_CHMOD)))) 7 = Some c'
          \<and> dentry (setattr c') = 0x1000
          \<and> path_key (setattr c') = \<lparr>ino = 0x1028, mount_id = 27\<rparr>
          \<and> resolve_dentry_calls (snd (kprobe__security_inode_setattr linux 7
                (null_iattr_regs 0x2000) (task7 (populated EVENT_CHMOD)))) = [])"
  using target_captured_iff [where s = "task7 (fresh EVENT_CHMOD)" and tid = 7
      and c = "fresh EVENT_CHMOD" and K = linux and ctx = "null_iattr_regs 0x1000"]
    target_captured_iff [where s = "task7 (populated EVENT_CHMOD)" and tid = 7
      and c = "populated EVENT_CHMOD" and K = linux and ctx = "null_iattr_regs 0x2000"]
  by (auto simp add: peek_syscall_def task7_def fresh_def populated_def null_iattr_regs_def
      linux_def)

text \<open>
  C7: in a firing for a task with a record whose \<^verbatim>\<open>iattr\<close> pointer is \<^verbatim>\<open>NULL\<close>,
  group and timestamps keep what they held, and the last step still runs: the target is
  captured and resolved when the kind is one of the three and the dentry is \<^verbatim>\<open>NULL\<close>,
  and otherwise the record and the resolver's requests stay as they were.
\<close>

theorem null_iattr_skips_fields_only:
  assumes "peek_syscall s tid = Some c" and "PT_REGS_PARM2 ctx = None"
  shows "\<exists>c'. peek_syscall (snd (kprobe__security_inode_setattr K tid ctx s)) tid = Some c'
           \<and> group (setattr c') = group (setattr c)
           \<and> atime (setattr c') = atime (setattr c)
           \<and> mtime (setattr c') = mtime (setattr c)
           \<and> (if type c \<in> {EVENT_UTIME, EVENT_CHMOD, EVENT_CHOWN} \<and> dentry (setattr c) = 0
               then dentry (setattr c') = PT_REGS_PARM1 ctx
                  \<and> path_key (setattr c') =
                      (path_key (setattr c))\<lparr>ino := get_dentry_ino K (PT_REGS_PARM1 ctx)\<rparr>
                  \<and> resolve_dentry_calls (snd (kprobe__security_inode_setattr K tid ctx s)) =
                      resolve_dentry_calls s @ [(PT_REGS_PARM1 ctx, path_key (setattr c'))]
               else c' = c
                  \<and> resolve_dentry_calls (snd (kprobe__security_inode_setattr K tid ctx s)) =
                      resolve_dentry_calls s)"
  using assms
  by (cases "type c \<in> {EVENT_UTIME, EVENT_CHMOD, EVENT_CHOWN}"; cases "dentry (setattr c) = 0")
    (auto simp add: fire_defs)

theorem null_iattr_skips_fields_only_witness:
  "peek_syscall (task7 (fresh EVENT_CHOWN)) 7 = Some (fresh EVENT_CHOWN)
   \<and> PT_REGS_PARM2 (null_iattr_regs 0x1000) = None
   \<and> (\<exists>c'. peek_syscall (snd (kprobe__security_inode_setattr linux 7 (null_iattr_regs 0x1000)
               (task7 (fresh EVENT_CHOWN)))) 7 = Some c'
          \<and> group (setattr c') = None \<and> atime (setattr c') = None \<and> mtime (setattr c') = None
          \<and> dentry (setattr c') = 0x1000
          \<and> path_key (setattr c') = \<lparr>ino = 0x1028, mount_id = 27\<rparr>
          \<and> resolve_dentry_calls (snd (kprobe__security_inode_setattr linux 7
                (null_iattr_regs 0x1000) (task7 (fresh EVENT_CHOWN)))) =
              [(0x1000, \<lparr>ino = 0x1028, mount_id = 27\<rparr>)])
   \<and> peek_syscall (task7 (fresh (EVENT_OTHER 0))) 7 = Some (fresh (EVENT_OTHER 0))
   \<and> type (fresh (EVENT_OTHER 0)) \<notin> {EVENT_UTIME, EVENT_CHMOD, EVENT_CHOWN}
   \<and> peek_syscall (snd (kprobe__security_inode_setattr linux 7 (null_iattr_regs 0x1000)
         (task7 (fresh (EVENT_OTHER 0))))) 7 = Some (fresh (EVENT_OTHER 0))
   \<and> resolve_dentry_calls (snd (kprobe__security_inode_setattr linux 7
         (null_iattr_regs 0x1000) (task7 (fresh (EVENT_OTHER 0))))) = []"
  using null_iattr_skips_fields_only [where s = "task7 (fresh EVENT_CHOWN)" and tid = 7
      and c = "fresh EVENT_CHOWN" and K = linux and ctx = "null_iattr_regs 0x1000"]
    null_iattr_skips_fields_only [where s = "task7 (fresh (EVENT_OTHER 0))" and tid = 7
      and c = "fresh (EVENT_OTHER 0)" and K = linux and ctx = "null_iattr_regs 0x1000"]
  by (auto simp add: peek_syscall_def task7_def fresh_def null_iattr_regs_def linux_def)

subsection \<open>The timestamps\<close>

text \<open>
  C3, as the spec words it: on every record, when the probe fires twice with time-touch
  bits and different timestamps, the record ends with the first firing's timestamps. The
  probe does otherwise on a record of another kind than the three of line 28: its dentry
  stays \<^verbatim>\<open>NULL\<close>, the test of line 21 never succeeds, and the second firing's
  timestamps replace the first's.
\<close>

theorem timestamps_first_writer_counterexample:
  "carries_times linux (utimes_regs 0x1000 100 200)
   \<and> carries_times linux (utimes_regs 0x1000 300 400)
   \<and> atime_of (snd (kprobe__security_inode_setattr linux 7 (utimes_regs 0x1000 100 200)
         (task7 (fresh (EVENT_OTHER 0))))) 7 = Some \<lparr>tv_sec = 100, tv_nsec = 0\<rparr>
   \<and> mtime_of (snd (kprobe__security_inode_setattr linux 7 (utimes_regs 0x1000 100 200)
         (task7 (fresh (EVENT_OTHER 0))))) 7 = Some \<lparr>tv_sec = 200, tv_nsec = 0\<rparr>
   \<and> atime_of (fire_all linux 7 [utimes_regs 0x1000 100 200, utimes_regs 0x1000 300 400]
         (task7 (fresh (EVENT_OTHER 0)))) 7 = Some \<lparr>tv_sec = 300, tv_nsec = 0\<rparr>
   \<and> mtime_of (fire_all linux 7 [utimes_regs 0x1000 100 200, utimes_regs 0x1000 300 400]
         (task7 (fresh (EVENT_OTHER 0)))) 7 = Some \<lparr>tv_sec = 400, tv_nsec = 0\<rparr>
   \<and> atime_of (fire_all linux 7 [utimes_regs 0x1000 100 200, utimes_regs 0x1000 300 400]
         (task7 (fresh (EVENT_OTHER 0)))) 7 \<noteq> Some \<lparr>tv_sec = 100, tv_nsec = 0\<rparr>
   \<and> mtime_of (fire_all linux 7 [utimes_regs 0x1000 100 200, utimes_regs 0x1000 300 400]
         (task7 (fresh (EVENT_OTHER 0)))) 7 \<noteq> Some \<lparr>tv_sec = 200, tv_nsec = 0\<rparr>"
  by (simp add: fire_defs example_defs)

text \<open>
  C3, amended. A firing with time-touch bits copies both timestamps when the record's
  dentry is \<^verbatim>\<open>NULL\<close> and leaves both when it is not; the path key is not consulted.
  When moreover the record's kind is one of \<^verbatim>\<open>EVENT_UTIME\<close>, \<^verbatim>\<open>EVENT_CHMOD\<close>,
  \<^verbatim>\<open>EVENT_CHOWN\<close>, its dentry is \<^verbatim>\<open>NULL\<close> and the firing's dentry argument is not,
  the record carries this first firing's timestamps after any later firings \<open>ctxs\<close>,
  whatever they carry.
\<close>

theorem timestamps_first_writer:
  assumes "peek_syscall s tid = Some c"
    and "PT_REGS_PARM2 ctx = Some ia" and "carries_times K ctx"
  shows "(\<exists>c1. peek_syscall (snd (kprobe__security_inode_setattr K tid ctx s)) tid = Some c1
            \<and> (if dentry (setattr c) = 0
                then atime (setattr c1) = Some (ia_atime ia)
                   \<and> mtime (setattr c1) = Some (ia_mtime ia)
                else atime (setattr c1) = atime (setattr c)
                   \<and> mtime (setattr c1) = mtime (setattr c)))
         \<and> (type c \<in> {EVENT_UTIME, EVENT_CHMOD, EVENT_CHOWN} \<and> dentry (setattr c) = 0
              \<and> PT_REGS_PARM1 ctx \<noteq> 0
             \<longrightarrow> (\<exists>c'. peek_syscall (fire_all K tid (ctx # ctxs) s) tid = Some c'
                    \<and> atime (setattr c') = Some (ia_atime ia)
                    \<and> mtime (setattr c') = Some (ia_mtime ia)))"
proof -
  let ?s1 = "snd (kprobe__security_inode_setattr K tid ctx s)"
  from assms(2,3) have bits:
    "ia_valid ia AND (ATTR_TOUCH K OR ATTR_ATIME_SET K OR ATTR_MTIME_SET K) \<noteq> 0"
    by (simp add: carries_times_def)
  from fire_times [OF assms(1), of K ctx] assms(2) bits obtain c1 where
    c1: "peek_syscall ?s1 tid = Some c1"
    and times: "(atime (setattr c1), mtime (setattr c1)) =
       (if dentry (setattr c) = 0 then (Some (ia_atime ia), Some (ia_mtime ia))
        else (atime (setattr c), mtime (setattr c)))"
    by auto
  from times have one: "if dentry (setattr c) = 0
      then atime (setattr c1) = Some (ia_atime ia) \<and> mtime (setattr c1) = Some (ia_mtime ia)
      else atime (setattr c1) = atime (setattr c) \<and> mtime (setattr c1) = mtime (setattr c)"
    by (simp split: if_splits)
  have later: "\<exists>c'. peek_syscall (fire_all K tid (ctx # ctxs) s) tid = Some c'
      \<and> atime (setattr c') = Some (ia_atime ia) \<and> mtime (setattr c') = Some (ia_mtime ia)"
    if kind: "type c \<in> {EVENT_UTIME, EVENT_CHMOD, EVENT_CHOWN}"
      and null: "dentry (setattr c) = 0" and arg: "PT_REGS_PARM1 ctx \<noteq> 0"
  proof -
    from fire_target [OF assms(1), of K ctx] c1 kind null
    have "dentry (setattr c1) = PT_REGS_PARM1 ctx" by auto
    with arg have "dentry (setattr c1) \<noteq> 0" by simp
    from fire_all_populated [OF c1 this, of K ctxs] one null show ?thesis by auto
  qed
  from c1 one later show ?thesis by blast
qed

theorem timestamps_first_writer_witness:
  "peek_syscall (task7 (fresh EVENT_UTIME)) 7 = Some (fresh EVENT_UTIME)
   \<and> PT_REGS_PARM2 (utimes_regs 0x1000 100 200) = Some (utimes_iattr 100 200)
   \<and> carries_times linux (utimes_regs 0x1000 100 200)
   \<and> type (fresh EVENT_UTIME) \<in> {EVENT_UTIME, EVENT_CHMOD, EVENT_CHOWN}
   \<and> dentry (setattr (fresh EVENT_UTIME)) = 0
   \<and> PT_REGS_PARM1 (utimes_regs 0x1000 100 200) \<noteq> 0
   \<and> (\<exists>c'. peek_syscall (fire_all linux 7 [utimes_regs 0x1000 100 200, utimes_regs 0x1000 300 400]
               (task7 (fresh EVENT_UTIME))) 7 = Some c'
          \<and> atime (setattr c') = Some \<lparr>tv_sec = 100, tv_nsec = 0\<rparr>
          \<and> mtime (setattr c') = Some \<lparr>tv_sec = 200, tv_nsec = 0\<rparr>)"
  using timestamps_first_writer [where s = "task7 (fresh EVENT_UTIME)" and tid = 7
      and c = "fresh EVENT_UTIME" and K = linux and ctx = "utimes_regs 0x1000 100 200"
      and ia = "utimes_iattr 100 200" and ctxs = "[utimes_regs 0x1000 300 400]"]
  by (simp add: peek_syscall_def task7_def fresh_def utimes_regs_def utimes_iattr_def
      carries_times_def linux_def)

text \<open>
  C8: a firing stores the access time and the modification time together or not at all.
  On a record where neither is set, after any sequence of firings both are set or
  neither is, and when set both are those of one and the same firing.
\<close>

theorem times_written_together:
  assumes "peek_syscall s tid = Some c"
    and "atime (setattr c) = None" and "mtime (setattr c) = None"
  shows "\<exists>c'. peek_syscall (fire_all K tid ctxs s) tid = Some c'
           \<and> (atime (setattr c') \<noteq> None \<longleftrightarrow> mtime (setattr c') \<noteq> None)
           \<and> (atime (setattr c') = None \<and> mtime (setattr c') = None
              \<or> (\<exists>ctx \<in> set ctxs. \<exists>ia. PT_REGS_PARM2 ctx = Some ia
                    \<and> atime (setattr c') = Some (ia_atime ia)
                    \<and> mtime (setattr c') = Some (ia_mtime ia)))"
proof -
  from fire_all_times [OF assms(1), of K ctxs] obtain c' where
    c': "peek_syscall (fire_all K tid ctxs s) tid = Some c'"
    and pair: "atime (setattr c') = atime (setattr c) \<and> mtime (setattr c') = mtime (setattr c)
       \<or> (\<exists>ctx \<in> set ctxs. \<exists>ia. PT_REGS_PARM2 ctx = Some ia
             \<and> atime (setattr c') = Some (ia_atime ia)
             \<and> mtime (setattr c') = Some (ia_mtime ia))"
    by blast
  from pair assms(2,3) have both:
    "atime (setattr c') = None \<and> mtime (setattr c') = None
       \<or> (\<exists>ctx \<in> set ctxs. \<exists>ia. PT_REGS_PARM2 ctx = Some ia
             \<and> atime (setattr c') = Some (ia_atime ia)
             \<and> mtime (setattr c') = Some (ia_mtime ia))"
    by auto
  then have "atime (setattr c') \<noteq> None \<longleftrightarrow> mtime (setattr c') \<noteq> None"
    by auto
  with c' both show ?thesis by blast
qed

theorem times_written_together_witness:
  "peek_syscall (task7 (fresh EVENT_UTIME)) 7 = Some (fresh EVENT_UTIME)
   \<and> atime (setattr (fresh EVENT_UTIME)) = None \<and> mtime (setattr (fresh EVENT_UTIME)) = None
   \<and> (\<exists>c'. peek_syscall (fire_all linux 7 [utimes_regs 0x1000 100 200, chown_regs 0x1000 1000]
               (task7 (fresh EVENT_UTIME))) 7 = Some c'
          \<and> (atime (setattr c') \<noteq> None) = (mtime (setattr c') \<noteq> None)
          \<and> atime (setattr c') = Some \<lparr>tv_sec = 100, tv_nsec = 0\<rparr>
          \<and> mtime (setattr c') = Some \<lparr>tv_sec = 200, tv_nsec = 0\<rparr>)"
  using times_written_together [where s = "task7 (fresh EVENT_UTIME)" and tid = 7
      and c = "fresh EVENT_UTIME" and K = linux
      and ctxs = "[utimes_regs 0x1000 100 200, chown_regs 0x1000 1000]"]
  by (simp add: fire_defs example_defs)

text \<open>
  C9, as the claim words it: on every record of another kind than \<^verbatim>\<open>EVENT_UTIME\<close>,
  \<^verbatim>\<open>EVENT_CHMOD\<close> and \<^verbatim>\<open>EVENT_CHOWN\<close>, repeated firings with time-touch bits leave
  the last firing's timestamps. The probe does otherwise on such a record whose dentry
  is already set: the test of line 21 is made for every kind, so each firing returns
  at line 22 and the timestamps stay unset.
\<close>

theorem timestamps_last_writer_other_kinds_counterexample:
  "type (populated (EVENT_OTHER 0)) \<notin> {EVENT_UTIME, EVENT_CHMOD, EVENT_CHOWN}
   \<and> dentry (setattr (populated (EVENT_OTHER 0))) = 0x1000
   \<and> carries_times linux (utimes_regs 0x1000 100 200)
   \<and> carries_times linux (utimes_regs 0x1000 300 400)
   \<and> atime_of (fire_all linux 7 [utimes_regs 0x1000 100 200, utimes_regs 0x1000 300 400]
         (task7 (populated (EVENT_OTHER 0)))) 7 = None
   \<and> mtime_of (fire_all linux 7 [utimes_regs 0x1000 100 200, utimes_regs 0x1000 300 400]
         (task7 (populated (EVENT_OTHER 0)))) 7 = None
   \<and> atime_of (fire_all linux 7 [utimes_regs 0x1000 100 200, utimes_regs 0x1000 300 400]
         (task7 (populated (EVENT_OTHER 0)))) 7 \<noteq> Some \<lparr>tv_sec = 300, tv_nsec = 0\<rparr>
   \<and> mtime_of (fire_all linux 7 [utimes_regs 0x1000 100 200, utimes_regs 0x1000 300 400]
         (task7 (populated (EVENT_OTHER 0)))) 7 \<noteq> Some \<lparr>tv_sec = 400, tv_nsec = 0\<rparr>"
  by (simp add: fire_defs example_defs)

text \<open>
  C9, amended: on a record of another kind than \<^verbatim>\<open>EVENT_UTIME\<close>, \<^verbatim>\<open>EVENT_CHMOD\<close> and
  \<^verbatim>\<open>EVENT_CHOWN\<close> whose dentry is \<^verbatim>\<open>NULL\<close>, the probe never populates the dentry
  and every firing with time-touch bits stores its timestamps: after a sequence of such
  firings the record carries the last firing's timestamps, not the first's, and its
  dentry is still \<^verbatim>\<open>NULL\<close>.
\<close>

theorem timestamps_last_writer_other_kinds:
  assumes "peek_syscall s tid = Some c"
    and "type c \<notin> {EVENT_UTIME, EVENT_CHMOD, EVENT_CHOWN}"
    and "dentry (setattr c) = 0"
    and "\<forall>r \<in> set (ctxs @ [ctx]). carries_times K r"
    and "PT_REGS_PARM2 ctx = Some ia"
  shows "\<exists>c'. peek_syscall (fire_all K tid (ctxs @ [ctx]) s) tid = Some c'
           \<and> atime (setattr c') = Some (ia_atime ia)
           \<and> mtime (setattr c') = Some (ia_mtime ia)
           \<and> dentry (setattr c') = 0"
proof -
  from fire_all_other_kind [OF assms(1,2,3), of K ctxs] obtain c1 where
    c1: "peek_syscall (fire_all K tid ctxs s) tid = Some c1"
    and t1: "type c1 = type c" and d1: "dentry (setattr c1) = 0"
    by blast
  from assms(4,5) have bits:
    "ia_valid ia AND (ATTR_TOUCH K OR ATTR_ATIME_SET K OR ATTR_MTIME_SET K) \<noteq> 0"
    by (simp add: carries_times_def)
  from assms(2) t1 have k1: "type c1 \<notin> {EVENT_UTIME, EVENT_CHMOD, EVENT_CHOWN}" by simp
  let ?s' = "snd (kprobe__security_inode_setattr K tid ctx (fire_all K tid ctxs s))"
  from fire_times [OF c1, of K ctx] assms(5) bits d1 obtain c' where
    c': "peek_syscall ?s' tid = Some c'"
    and times: "atime (setattr c') = Some (ia_atime ia)" "mtime (setattr c') = Some (ia_mtime ia)"
    by auto
  from fire_other_kind [OF c1 k1 d1, of K ctx] c' have "dentry (setattr c') = 0" by auto
  with c' times show ?thesis by (simp add: fire_all_append)
qed

theorem timestamps_last_writer_other_kinds_witness:
  "peek_syscall (task7 (fresh (EVENT_OTHER 0))) 7 = Some (fresh (EVENT_OTHER 0))
   \<and> type (fresh (EVENT_OTHER 0)) \<notin> {EVENT_UTIME, EVENT_CHMOD, EVENT_CHOWN}
   \<and> dentry (setattr (fresh (EVENT_OTHER 0))) = 0
   \<and> carries_times linux (utimes_regs 0x1000 100 200)
   \<and> carries_times linux (utimes_regs 0x1000 300 400)
   \<and> PT_REGS_PARM2 (utimes_regs 0x1000 300 400) = Some (utimes_iattr 300 400)
   \<and> (\<exists>c'. peek_syscall (fire_all linux 7
               ([utimes_regs 0x1000 100 200] @ [utimes_regs 0x1000 300 400])
               (task7 (fresh (EVENT_OTHER 0)))) 7 = Some c'
          \<and> atime (setattr c') = Some \<lparr>tv_sec = 300, tv_nsec = 0\<rparr>
          \<and> mtime (setattr c') = Some \<lparr>tv_sec = 400, tv_nsec = 0\<rparr>
          \<and> dentry (setattr c') = 0)"
  using timestamps_last_writer_other_kinds [where s = "task7 (fresh (EVENT_OTHER 0))"
      and tid = 7 and c = "fresh (EVENT_OTHER 0)" and K = linux
      and ctxs = "[utimes_regs 0x1000 100 200]" and ctx = "utimes_regs 0x1000 300 400"
      and ia = "utimes_iattr 300 400"]
  by (simp add: peek_syscall_def task7_def fresh_def utimes_regs_def utimes_iattr_def
      carries_times_def linux_def)

end
